theory Spec2Isabelle
  imports Complex_Main "HOL-Library.AList"
begin

section \<open>Conventions of the embedding\<close>

text \<open>
  The development embeds the analytic core of the weather pipeline
  (\<^verbatim>\<open>preprocess_weather_data.py\<close>) and of its query layer
  (\<^verbatim>\<open>weather_data_integration.py\<close>).

  \<^item> Python floats are embedded as exact reals: there is no rounding, no NaN and no
    infinity. The one exception is \<^verbatim>\<open>get_seasonal_adjustment_factors\<close>, whose result
    depends on rounding: there every arithmetic operation is followed by the rounding of
    IEEE binary64, with an unbounded exponent range.
  \<^item> A missing value (pandas \<^verbatim>\<open>NaN\<close>/\<^verbatim>\<open>NaT\<close>, Python \<^verbatim>\<open>None\<close>, SQL \<^verbatim>\<open>NULL\<close>) is \<open>None\<close>
    of an option type.
  \<^item> A Python dictionary is an association list in insertion order
    (\<open>AList.update\<close> overwrites in place or appends, as \<^verbatim>\<open>d[k] = v\<close> does).
  \<^item> A table of the SQLite store is the list of its rows in rowid order.
\<close>

subsection \<open>Python and SQL primitives\<close>

text \<open>\<^verbatim>\<open>d.get(k, default)\<close>\<close>

definition dict_get :: "('k \<times> 'v) list \<Rightarrow> 'k \<Rightarrow> 'v \<Rightarrow> 'v" where
  "dict_get d k dflt = (case map_of d k of None \<Rightarrow> dflt | Some v \<Rightarrow> v)"

text \<open>\<^verbatim>\<open>sum(xs) / len(xs)\<close>, only ever called on a non-empty list.\<close>

definition mean :: "real list \<Rightarrow> real" where
  "mean xs = sum_list xs / real (length xs)"

text \<open>\<^verbatim>\<open>min(xs)\<close> and \<^verbatim>\<open>max(xs)\<close> of a non-empty list.\<close>

fun py_min :: "real list \<Rightarrow> real" where
  "py_min [] = 0"
| "py_min [x] = x"
| "py_min (x # xs) = min x (py_min xs)"

fun py_max :: "real list \<Rightarrow> real" where
  "py_max [] = 0"
| "py_max [x] = x"
| "py_max (x # xs) = max x (py_max xs)"

text \<open>The SQL aggregates \<^verbatim>\<open>SUM\<close> and \<^verbatim>\<open>AVG\<close>: \<^verbatim>\<open>NULL\<close> over no rows.\<close>

definition sql_sum :: "real list \<Rightarrow> real option" where
  "sql_sum xs = (if xs = [] then None else Some (sum_list xs))"

definition sql_avg :: "real list \<Rightarrow> real option" where
  "sql_avg xs = (if xs = [] then None else Some (mean xs))"

text \<open>\<^verbatim>\<open>x or 0\<close> on a nullable number.\<close>

definition or0 :: "real option \<Rightarrow> real" where
  "or0 x = (case x of None \<Rightarrow> 0 | Some v \<Rightarrow> (if v = 0 then 0 else v))"

subsection \<open>Binary64 arithmetic\<close>

text \<open>
  A binary64 number other than zero is \<open>n \<times> pow2 (e - 52)\<close> for an integer \<open>n\<close> of 53
  bits, where \<open>pow2 e\<close> is the largest power of two not above its magnitude. The result of an
  arithmetic operation is the exact result rounded to the nearest such number, a tie
  going to the even \<open>n\<close>. Overflow, underflow and NaN are left out: the exponent is any
  integer.
\<close>

definition round_even :: "real \<Rightarrow> int" where
  "round_even y =
     (let f = \<lfloor>y\<rfloor>
      in if y - of_int f < 1 / 2 then f
         else if y - of_int f > 1 / 2 then f + 1
         else if even f then f else f + 1)"

definition pow2 :: "int \<Rightarrow> real" where
  "pow2 n = (if 0 \<le> n then 2 ^ nat n else 1 / 2 ^ nat (- n))"

definition exponent :: "real \<Rightarrow> int" where
  "exponent x = \<lfloor>log 2 \<bar>x\<bar>\<rfloor>"

definition fl :: "real \<Rightarrow> real" where
  "fl x =
     (if x = 0 then 0
      else of_int (round_even (x / pow2 (exponent x - 52))) * pow2 (exponent x - 52))"

definition unit_roundoff :: real where
  "unit_roundoff = 1 / 2 ^ 53"



section \<open>The preprocessor\<close>

definition BASE_TEMP_HEATING :: real where
  "BASE_TEMP_HEATING = 65"

definition BASE_TEMP_COOLING :: real where
  "BASE_TEMP_COOLING = 65"

definition SEVERE_WEATHER_TYPES :: "string set" where
  "SEVERE_WEATHER_TYPES =
     {''Cold'', ''Snow'', ''Thunderstorm'', ''Hail'', ''Hurricane'', ''Tornado'', ''Heat''}"

subsection \<open>Temperature extraction\<close>

text \<open>The arguments are in the source's order: severity first, event type second.\<close>

definition extract_temperature :: "string \<Rightarrow> string \<Rightarrow> real option" where
  "extract_temperature severity event_type =
     (if event_type = ''Cold'' then
        (if severity = ''Extreme'' then Some 10
         else if severity = ''Severe'' then Some 20
         else if severity = ''Moderate'' then Some 30
         else Some 40)
      else if event_type = ''Heat'' then
        (if severity = ''Extreme'' then Some 105
         else if severity = ''Severe'' then Some 100
         else if severity = ''Moderate'' then Some 95
         else Some 90)
      else None)"

subsection \<open>Impact score\<close>

definition base_impacts :: "(string \<times> real) list" where
  "base_impacts =
     [(''Cold'', 9), (''Heat'', 17 / 2), (''Snow'', 7), (''Thunderstorm'', 6),
      (''Rain'', 4), (''Fog'', 2), (''Hail'', 5), (''Wind'', 3),
      (''Hurricane'', 10), (''Tornado'', 10), (''Precipitation'', 7 / 2),
      (''Cloudy'', 1)]"

definition severity_multipliers :: "(string \<times> real) list" where
  "severity_multipliers =
     [(''Extreme'', 1), (''Severe'', 8 / 10), (''Moderate'', 6 / 10),
      (''Light'', 3 / 10), (''Heavy'', 9 / 10), (''UNK'', 5 / 10)]"

definition calculate_event_impact_score :: "string \<Rightarrow> string \<Rightarrow> real \<Rightarrow> real" where
  "calculate_event_impact_score event_type severity duration_hours =
     (let base_impact = dict_get base_impacts event_type 1;
          severity_multiplier = dict_get severity_multipliers severity (5 / 10);
          duration_factor = min duration_hours 24 / 24;
          impact_score = base_impact * severity_multiplier * (5 / 10 + 5 / 10 * duration_factor)
      in min 10 impact_score)"

text \<open>
  The two lookup tables as the specification describes them: a fixed table per event
  type and per severity, with a default for every key that is not listed.
\<close>

definition spec_base :: "string \<Rightarrow> real" where
  "spec_base t =
     (if t = ''Cold'' then 9 else if t = ''Heat'' then 8.5 else if t = ''Snow'' then 7
      else if t = ''Thunderstorm'' then 6 else if t = ''Rain'' then 4
      else if t = ''Fog'' then 2 else if t = ''Hail'' then 5 else if t = ''Wind'' then 3
      else if t = ''Hurricane'' then 10 else if t = ''Tornado'' then 10
      else if t = ''Precipitation'' then 3.5 else if t = ''Cloudy'' then 1
      else 1)"

definition spec_mult :: "string \<Rightarrow> real" where
  "spec_mult s =
     (if s = ''Extreme'' then 1 else if s = ''Severe'' then 0.8
      else if s = ''Moderate'' then 0.6 else if s = ''Light'' then 0.3
      else if s = ''Heavy'' then 0.9 else if s = ''UNK'' then 0.5
      else 0.5)"

subsection \<open>Calendar dates and instants\<close>

text \<open>
  A calendar date stands for its ISO text \<^verbatim>\<open>YYYY-MM-DD\<close>, the form in which the pipeline
  stores dates (\<^verbatim>\<open>date().isoformat()\<close>) and the query layer receives them. Comparing two
  such texts, as SQLite does, is comparing year, month and day lexicographically.
\<close>

record date =
  d_year :: int
  d_month :: int
  d_day :: int

definition date_le :: "date \<Rightarrow> date \<Rightarrow> bool" where
  "date_le a b =
     (d_year a < d_year b
      \<or> (d_year a = d_year b
          \<and> (d_month a < d_month b \<or> (d_month a = d_month b \<and> d_day a \<le> d_day b))))"

text \<open>The proleptic Gregorian day count of Python's \<^verbatim>\<open>datetime\<close>.\<close>

definition is_leap :: "int \<Rightarrow> bool" where
  "is_leap y = (y mod 4 = 0 \<and> (y mod 100 \<noteq> 0 \<or> y mod 400 = 0))"

definition days_in_month :: "int \<Rightarrow> int \<Rightarrow> int" where
  "days_in_month y m =
     (if m = 2 then (if is_leap y then 29 else 28)
      else if m = 4 \<or> m = 6 \<or> m = 9 \<or> m = 11 then 30 else 31)"

definition days_before_year :: "int \<Rightarrow> int" where
  "days_before_year y = (y - 1) * 365 + (y - 1) div 4 - (y - 1) div 100 + (y - 1) div 400"

definition days_before_month :: "int \<Rightarrow> int \<Rightarrow> int" where
  "days_before_month y m = (\<Sum>k \<leftarrow> [1..m - 1]. days_in_month y k)"

definition toordinal :: "date \<Rightarrow> int" where
  "toordinal d = days_before_year (d_year d) + days_before_month (d_year d) (d_month d) + d_day d"

text \<open>
  \<^verbatim>\<open>datetime.strptime(s, '%Y-%m-%d')\<close> accepts exactly the texts that name a real day and
  raises \<^verbatim>\<open>ValueError\<close> on every other one.
\<close>

definition valid_date :: "date \<Rightarrow> bool" where
  "valid_date d =
     (1 \<le> d_year d \<and> d_year d \<le> 9999 \<and> 1 \<le> d_month d \<and> d_month d \<le> 12
      \<and> 1 \<le> d_day d \<and> d_day d \<le> days_in_month (d_year d) (d_month d))"

datatype py_error = ValueError | TypeError

definition strptime :: "date \<Rightarrow> py_error + date" where
  "strptime d = (if valid_date d then Inr d else Inl ValueError)"

text \<open>An instant: a calendar date and the seconds elapsed since its midnight.\<close>

record timestamp =
  ts_date :: date
  ts_seconds :: real

text \<open>\<^verbatim>\<open>(end - start) / pd.Timedelta(hours=1)\<close>\<close>

definition hours_between :: "timestamp \<Rightarrow> timestamp \<Rightarrow> real" where
  "hours_between start end =
     (real_of_int (toordinal (ts_date end) - toordinal (ts_date start)) * 86400
      + (ts_seconds end - ts_seconds start)) / 3600"

subsection \<open>Input records\<close>

text \<open>
  One row of the input, with the columns the pipeline reads. A cell that pandas reads
  as missing is \<open>None\<close>. The two instants are taken as already parsed: a text that
  \<^verbatim>\<open>pd.to_datetime\<close> cannot parse aborts the run inside \<^verbatim>\<open>process_chunk\<close>, before the
  first write to the store.
\<close>

record weather_event =
  ev_Type :: "string option"
  ev_Severity :: "string option"
  ev_StartTime :: "timestamp option"
  ev_EndTime :: "timestamp option"
  ev_Precipitation :: "real option"
  ev_TimeZone :: "string option"
  ev_LocationLat :: "real option"
  ev_LocationLng :: "real option"
  ev_City :: "string option"
  ev_County :: "string option"
  ev_State :: "string option"
  ev_ZipCode :: "string option"

record csv_file =
  csv_columns :: "string list"
  csv_rows :: "weather_event list"

definition required_columns :: "string list" where
  "required_columns =
     [''EventId'', ''Type'', ''Severity'', ''StartTime(UTC)'', ''EndTime(UTC)'',
      ''Precipitation(in)'', ''TimeZone'', ''LocationLat'', ''LocationLng'',
      ''City'', ''County'', ''State'', ''ZipCode'']"

subsection \<open>In-memory accumulators\<close>

record location_acc =
  la_zip_code :: string
  la_city :: "string option"
  la_county :: "string option"
  la_state :: string
  la_latitude :: "real option"
  la_longitude :: "real option"
  la_event_count :: nat
  la_climate_zone :: int

record daily_acc =
  da_temp_values :: "real list"
  da_precipitation :: real
  da_severe_events :: nat
  da_impact_scores :: "real list"

record monthly_acc =
  ma_temp_values :: "real list"
  ma_precipitation :: real
  ma_severe_event_days :: "date list"
  ma_impact_scores :: "real list"

record event_acc =
  ea_count :: nat
  ea_duration_total :: real
  ea_severity_values :: "real list"
  ea_impact_scores :: "real list"

record accumulators =
  location_data :: "(string \<times> location_acc) list"
  daily_weather :: "(string \<times> (date \<times> daily_acc) list) list"
  monthly_stats :: "(string \<times> (int \<times> (int \<times> monthly_acc) list) list) list"
  event_stats :: "(string \<times> (string \<times> event_acc) list) list"

text \<open>
  \<^verbatim>\<open>if k not in d: d[k] = init\<close> followed by an in-place change \<open>f\<close> of \<^verbatim>\<open>d[k]\<close>.
\<close>

definition modify :: "'k \<Rightarrow> 'v \<Rightarrow> ('v \<Rightarrow> 'v) \<Rightarrow> ('k \<times> 'v) list \<Rightarrow> ('k \<times> 'v) list" where
  "modify k init f d = AList.update k (f (dict_get d k init)) d"

text \<open>A comparison with a missing latitude (NaN) is false, so every test fails.\<close>

definition estimate_climate_zone :: "real option \<Rightarrow> real option \<Rightarrow> int" where
  "estimate_climate_zone latitude longitude =
     (case latitude of
        None \<Rightarrow> 5
      | Some lat \<Rightarrow>
          (let abs_lat = \<bar>lat\<bar>
           in if abs_lat < 27 then 1
              else if abs_lat < 34 then 2
              else if abs_lat < 40 then 3
              else if abs_lat < 45 then 4
              else 5))"

definition severity_map :: "(string \<times> real) list" where
  "severity_map =
     [(''Extreme'', 4), (''Severe'', 3), (''Moderate'', 2), (''Light'', 1),
      (''Heavy'', 7 / 2), (''UNK'', 2)]"

definition add_opt :: "real option \<Rightarrow> real \<Rightarrow> real" where
  "add_opt p acc = (case p of None \<Rightarrow> acc | Some v \<Rightarrow> acc + v)"

definition append_opt :: "real option \<Rightarrow> real list \<Rightarrow> real list" where
  "append_opt t xs = (case t of None \<Rightarrow> xs | Some v \<Rightarrow> xs @ [v])"

text \<open>
  The body of the loop over the events of a chunk, for an event that passed
  \<^verbatim>\<open>dropna\<close>: its type, severity, start instant and duration are present.
\<close>

definition process_event ::
  "weather_event \<Rightarrow> string \<Rightarrow> string \<Rightarrow> timestamp \<Rightarrow> real \<Rightarrow> accumulators \<Rightarrow> accumulators" where
  "process_event event ty sev start_time_utc duration_hours acc =
     (case (ev_ZipCode event, ev_State event) of
        (Some zip_code, Some state) \<Rightarrow>
          (let location_id = zip_code @ ''_'' @ state;
               local_date = ts_date start_time_utc;
               year = d_year (ts_date start_time_utc);
               month = d_month (ts_date start_time_utc);
               temp = extract_temperature sev ty;
               severe = (ty \<in> SEVERE_WEATHER_TYPES);
               impact_score = calculate_event_impact_score ty sev duration_hours;
               severity_value = dict_get severity_map sev 2
           in acc\<lparr>
                location_data :=
                  modify location_id
                    \<lparr>la_zip_code = zip_code, la_city = ev_City event, la_county = ev_County event,
                     la_state = state, la_latitude = ev_LocationLat event,
                     la_longitude = ev_LocationLng event, la_event_count = 0,
                     la_climate_zone =
                       estimate_climate_zone (ev_LocationLat event) (ev_LocationLng event)\<rparr>
                    (\<lambda>l. l\<lparr>la_event_count := la_event_count l + 1\<rparr>)
                    (location_data acc),
                daily_weather :=
                  modify location_id []
                    (modify local_date
                       \<lparr>da_temp_values = [], da_precipitation = 0, da_severe_events = 0,
                        da_impact_scores = []\<rparr>
                       (\<lambda>d. d\<lparr>da_temp_values := append_opt temp (da_temp_values d),
                              da_precipitation :=
                                add_opt (ev_Precipitation event) (da_precipitation d),
                              da_severe_events :=
                                (if severe then da_severe_events d + 1 else da_severe_events d),
                              da_impact_scores := da_impact_scores d @ [impact_score]\<rparr>))
                    (daily_weather acc),
                monthly_stats :=
                  modify location_id []
                    (modify year []
                       (modify month
                          \<lparr>ma_temp_values = [], ma_precipitation = 0,
                           ma_severe_event_days = [], ma_impact_scores = []\<rparr>
                          (\<lambda>m. m\<lparr>ma_temp_values := append_opt temp (ma_temp_values m),
                                 ma_precipitation :=
                                   add_opt (ev_Precipitation event) (ma_precipitation m),
                                 ma_severe_event_days :=
                                   (if severe then List.insert local_date (ma_severe_event_days m)
                                    else ma_severe_event_days m),
                                 ma_impact_scores := ma_impact_scores m @ [impact_score]\<rparr>)))
                    (monthly_stats acc),
                event_stats :=
                  modify location_id []
                    (modify ty
                       \<lparr>ea_count = 0, ea_duration_total = 0, ea_severity_values = [],
                        ea_impact_scores = []\<rparr>
                       (\<lambda>e. e\<lparr>ea_count := ea_count e + 1,
                              ea_duration_total := ea_duration_total e + duration_hours,
                              ea_severity_values := ea_severity_values e @ [severity_value],
                              ea_impact_scores := ea_impact_scores e @ [impact_score]\<rparr>))
                    (event_stats acc)\<rparr>)
      | _ \<Rightarrow> acc)"

text \<open>
  \<^verbatim>\<open>process_chunk\<close>: rows without start, end, type or severity are dropped, the duration
  is the plain difference of the two instants, and the loop runs over the rest.
\<close>

fun process_chunk :: "weather_event list \<Rightarrow> accumulators \<Rightarrow> accumulators" where
  "process_chunk [] acc = acc"
| "process_chunk (event # chunk) acc =
     (case (ev_StartTime event, ev_EndTime event, ev_Type event, ev_Severity event) of
        (Some start, Some end, Some ty, Some sev) \<Rightarrow>
          process_chunk chunk (process_event event ty sev start (hours_between start end) acc)
      | _ \<Rightarrow> process_chunk chunk acc)"

subsection \<open>The aggregate store\<close>

record location_row =
  lr_location_id :: string
  lr_zip_code :: string
  lr_city :: "string option"
  lr_county :: "string option"
  lr_state :: string
  lr_latitude :: "real option"
  lr_longitude :: "real option"
  lr_climate_zone :: int
  lr_event_frequency :: real

record daily_weather_row =
  dr_date :: date
  dr_location_id :: string
  dr_avg_temp :: "real option"
  dr_min_temp :: "real option"
  dr_max_temp :: "real option"
  dr_precipitation :: real
  dr_heating_degree_days :: real
  dr_cooling_degree_days :: real
  dr_severe_events :: nat
  dr_impact_score :: real

record monthly_stats_row =
  mr_year :: int
  mr_month :: int
  mr_location_id :: string
  mr_avg_temp :: "real option"
  mr_total_heating_degree_days :: real
  mr_total_cooling_degree_days :: real
  mr_precipitation :: real
  mr_severe_event_days :: nat
  mr_avg_impact_score :: real

record event_stats_row =
  er_location_id :: string
  er_event_type :: string
  er_count :: nat
  er_avg_duration :: real
  er_avg_severity :: real
  er_energy_impact_score :: real

record store =
  tbl_locations :: "location_row list"
  tbl_daily_weather :: "daily_weather_row list"
  tbl_monthly_stats :: "monthly_stats_row list"
  tbl_event_stats :: "event_stats_row list"

text \<open>The primary keys declared by \<^verbatim>\<open>create_tables\<close>.\<close>

definition pk_locations :: "location_row \<Rightarrow> string" where
  "pk_locations r = lr_location_id r"

definition pk_daily_weather :: "daily_weather_row \<Rightarrow> date \<times> string" where
  "pk_daily_weather r = (dr_date r, dr_location_id r)"

definition pk_monthly_stats :: "monthly_stats_row \<Rightarrow> int \<times> int \<times> string" where
  "pk_monthly_stats r = (mr_year r, mr_month r, mr_location_id r)"

definition pk_event_stats :: "event_stats_row \<Rightarrow> string \<times> string" where
  "pk_event_stats r = (er_location_id r, er_event_type r)"

text \<open>
  \<^verbatim>\<open>INSERT OR REPLACE\<close>: the row that holds the same primary key is deleted and the new
  row is inserted with a fresh, largest rowid.
\<close>

definition insert_or_replace :: "('r \<Rightarrow> 'k) \<Rightarrow> 'r \<Rightarrow> 'r list \<Rightarrow> 'r list" where
  "insert_or_replace pk row tbl = filter (\<lambda>r. pk r \<noteq> pk row) tbl @ [row]"

definition executemany :: "('r \<Rightarrow> 'k) \<Rightarrow> 'r list \<Rightarrow> 'r list \<Rightarrow> 'r list" where
  "executemany pk batch tbl = fold (insert_or_replace pk) batch tbl"

text \<open>\<^verbatim>\<open>[xs[i:i+n] for i in range(0, len(xs), n)]\<close>\<close>

function batches :: "nat \<Rightarrow> 'a list \<Rightarrow> 'a list list" where
  "batches n xs = (if n = 0 \<or> xs = [] then [] else take n xs # batches n (drop n xs))"
  by pat_completeness auto
termination
  by (relation "measure (\<lambda>(n, xs). length xs)") auto

definition batch_size :: nat where
  "batch_size = 1000"

definition insert_in_batches :: "('r \<Rightarrow> 'k) \<Rightarrow> 'r list \<Rightarrow> 'r list \<Rightarrow> 'r list" where
  "insert_in_batches pk data_to_insert tbl =
     fold (executemany pk) (batches batch_size data_to_insert) tbl"

subsection \<open>Flushing the accumulators\<close>

definition daily_row :: "string \<Rightarrow> date \<Rightarrow> daily_acc \<Rightarrow> daily_weather_row" where
  "daily_row location_id dt data =
     (case (if da_temp_values data \<noteq> [] then
              (let avg_temp = mean (da_temp_values data)
               in (Some avg_temp, Some (py_min (da_temp_values data)),
                   Some (py_max (da_temp_values data)),
                   max 0 (BASE_TEMP_HEATING - avg_temp),
                   max 0 (avg_temp - BASE_TEMP_COOLING)))
            else (None, None, None, 0, 0)) of
        (avg_temp, min_temp, max_temp, hdd, cdd) \<Rightarrow>
          (let avg_impact =
                 (if da_impact_scores data \<noteq> [] then mean (da_impact_scores data) else 0)
           in \<lparr>dr_date = dt, dr_location_id = location_id, dr_avg_temp = avg_temp,
               dr_min_temp = min_temp, dr_max_temp = max_temp,
               dr_precipitation = da_precipitation data,
               dr_heating_degree_days = hdd, dr_cooling_degree_days = cdd,
               dr_severe_events = da_severe_events data, dr_impact_score = avg_impact\<rparr>))"

definition daily_rows ::
  "(string \<times> (date \<times> daily_acc) list) list \<Rightarrow> daily_weather_row list" where
  "daily_rows dw =
     concat (map (\<lambda>(location_id, dates).
                    map (\<lambda>(dt, data). daily_row location_id dt data) dates) dw)"

definition save_daily_weather_data ::
  "(string \<times> (date \<times> daily_acc) list) list \<Rightarrow> store \<Rightarrow> store" where
  "save_daily_weather_data dw st =
     st\<lparr>tbl_daily_weather :=
          insert_in_batches pk_daily_weather (daily_rows dw) (tbl_daily_weather st)\<rparr>"

definition location_row_of :: "string \<Rightarrow> location_acc \<Rightarrow> location_row" where
  "location_row_of location_id data =
     (let event_frequency = real (la_event_count data) / 7
      in \<lparr>lr_location_id = location_id, lr_zip_code = la_zip_code data,
          lr_city = la_city data, lr_county = la_county data, lr_state = la_state data,
          lr_latitude = la_latitude data, lr_longitude = la_longitude data,
          lr_climate_zone = la_climate_zone data, lr_event_frequency = event_frequency\<rparr>)"

definition save_location_data :: "(string \<times> location_acc) list \<Rightarrow> store \<Rightarrow> store" where
  "save_location_data ld st =
     st\<lparr>tbl_locations :=
          insert_in_batches pk_locations
            (map (\<lambda>(location_id, data). location_row_of location_id data) ld)
            (tbl_locations st)\<rparr>"

definition monthly_row :: "string \<Rightarrow> int \<Rightarrow> int \<Rightarrow> monthly_acc \<Rightarrow> monthly_stats_row" where
  "monthly_row location_id year month data =
     (let avg_temp =
            (if ma_temp_values data \<noteq> [] then Some (mean (ma_temp_values data)) else None);
          avg_impact =
            (if ma_impact_scores data \<noteq> [] then mean (ma_impact_scores data) else 0)
      in case (case avg_temp of
                 Some t \<Rightarrow>
                   (let days_in_month = 30
                    in (max 0 (BASE_TEMP_HEATING - t) * days_in_month,
                        max 0 (t - BASE_TEMP_COOLING) * days_in_month))
               | None \<Rightarrow> (0, 0)) of
           (total_hdd, total_cdd) \<Rightarrow>
             \<lparr>mr_year = year, mr_month = month, mr_location_id = location_id,
              mr_avg_temp = avg_temp, mr_total_heating_degree_days = total_hdd,
              mr_total_cooling_degree_days = total_cdd,
              mr_precipitation = ma_precipitation data,
              mr_severe_event_days = length (ma_severe_event_days data),
              mr_avg_impact_score = avg_impact\<rparr>)"

definition monthly_rows ::
  "(string \<times> (int \<times> (int \<times> monthly_acc) list) list) list \<Rightarrow> monthly_stats_row list" where
  "monthly_rows ms =
     concat (map (\<lambda>(location_id, years).
       concat (map (\<lambda>(year, months).
         map (\<lambda>(month, data). monthly_row location_id year month data) months) years)) ms)"

definition save_monthly_statistics ::
  "(string \<times> (int \<times> (int \<times> monthly_acc) list) list) list \<Rightarrow> store \<Rightarrow> store" where
  "save_monthly_statistics ms st =
     st\<lparr>tbl_monthly_stats :=
          insert_in_batches pk_monthly_stats (monthly_rows ms) (tbl_monthly_stats st)\<rparr>"

definition event_row :: "string \<Rightarrow> string \<Rightarrow> event_acc \<Rightarrow> event_stats_row" where
  "event_row location_id event_type data =
     (let avg_duration =
            (if ea_count data > 0 then ea_duration_total data / real (ea_count data) else 0);
          avg_severity =
            (if ea_severity_values data \<noteq> [] then mean (ea_severity_values data) else 0);
          energy_impact =
            (if ea_impact_scores data \<noteq> [] then mean (ea_impact_scores data) else 0)
      in \<lparr>er_location_id = location_id, er_event_type = event_type,
          er_count = ea_count data, er_avg_duration = avg_duration,
          er_avg_severity = avg_severity, er_energy_impact_score = energy_impact\<rparr>)"

definition event_rows :: "(string \<times> (string \<times> event_acc) list) list \<Rightarrow> event_stats_row list" where
  "event_rows es =
     concat (map (\<lambda>(location_id, events).
                    map (\<lambda>(event_type, data). event_row location_id event_type data) events) es)"

definition save_event_statistics ::
  "(string \<times> (string \<times> event_acc) list) list \<Rightarrow> store \<Rightarrow> store" where
  "save_event_statistics es st =
     st\<lparr>tbl_event_stats :=
          insert_in_batches pk_event_stats (event_rows es) (tbl_event_stats st)\<rparr>"

subsection \<open>The run\<close>

datatype run_error = MissingColumns "string list" | BadChunkSize

definition empty_accumulators :: accumulators where
  "empty_accumulators =
     \<lparr>location_data = [], daily_weather = [], monthly_stats = [], event_stats = []\<rparr>"

text \<open>
  The loop over the chunks of the input: the optional state filter, the chunk itself,
  and the early exit once \<^verbatim>\<open>max_chunks\<close> chunks are done.
\<close>

fun read_loop ::
  "string set option \<Rightarrow> nat option \<Rightarrow> nat \<Rightarrow> weather_event list list
     \<Rightarrow> accumulators \<Rightarrow> accumulators" where
  "read_loop state_filter max_chunks chunks_processed [] acc = acc"
| "read_loop state_filter max_chunks chunks_processed (chunk # rest) acc =
     (let chunks_processed = chunks_processed + 1;
          chunk =
            (case state_filter of
               None \<Rightarrow> chunk
             | Some sf \<Rightarrow>
                 (if sf = {} then chunk
                  else filter (\<lambda>e. case ev_State e of None \<Rightarrow> False | Some s \<Rightarrow> s \<in> sf) chunk));
          acc = process_chunk chunk acc
      in if (case max_chunks of None \<Rightarrow> False | Some m \<Rightarrow> m \<noteq> 0 \<and> chunks_processed \<ge> m)
         then acc
         else read_loop state_filter max_chunks chunks_processed rest acc)"

text \<open>
  \<^verbatim>\<open>preprocess_weather_data\<close>, as far as the store is concerned. A missing column makes
  the run return before the database is opened; a chunk size below one makes
  \<^verbatim>\<open>pd.read_csv\<close> raise before the first write. Otherwise the accumulators are filled
  from empty and flushed once, table by table. The JSON side outputs and the indexes do
  not change the contents of the tables.
\<close>

definition preprocess_weather_data ::
  "csv_file \<Rightarrow> nat \<Rightarrow> string set option \<Rightarrow> nat option \<Rightarrow> store \<Rightarrow> run_error + store" where
  "preprocess_weather_data input_file chunk_size state_filter max_chunks st =
     (let missing_columns =
            filter (\<lambda>col. col \<notin> set (csv_columns input_file)) required_columns
      in if missing_columns \<noteq> [] then Inl (MissingColumns missing_columns)
         else if chunk_size = 0 then Inl BadChunkSize
         else
           (let acc = read_loop state_filter max_chunks 0
                        (batches chunk_size (csv_rows input_file)) empty_accumulators
            in Inr (save_event_statistics (event_stats acc)
                     (save_monthly_statistics (monthly_stats acc)
                       (save_location_data (location_data acc)
                         (save_daily_weather_data (daily_weather acc) st))))))"

definition pk_distinct :: "store \<Rightarrow> bool" where
  "pk_distinct st =
     (distinct (map pk_locations (tbl_locations st))
      \<and> distinct (map pk_daily_weather (tbl_daily_weather st))
      \<and> distinct (map pk_monthly_stats (tbl_monthly_stats st))
      \<and> distinct (map pk_event_stats (tbl_event_stats st)))"

section \<open>The query layer\<close>

text \<open>\<^verbatim>\<open>cursor.fetchone()\<close>: the first row of the result, or nothing.\<close>

definition fetchone :: "'a list \<Rightarrow> 'a option" where
  "fetchone rows = (case rows of [] \<Rightarrow> None | r # _ \<Rightarrow> Some r)"

text \<open>The truth value of an optional text: \<^verbatim>\<open>None\<close> and the empty text are false.\<close>

definition truthy :: "string option \<Rightarrow> bool" where
  "truthy s = (case s of None \<Rightarrow> False | Some v \<Rightarrow> v \<noteq> [])"

subsection \<open>Nearest location\<close>

definition find_nearest_location :: "store \<Rightarrow> string \<Rightarrow> string option \<Rightarrow> location_row option" where
  "find_nearest_location st zip_code state =
     (case (if truthy state
            then fetchone (filter (\<lambda>l. lr_zip_code l = zip_code \<and> Some (lr_state l) = state)
                             (tbl_locations st))
            else fetchone (filter (\<lambda>l. lr_zip_code l = zip_code) (tbl_locations st))) of
        Some row \<Rightarrow> Some row
      | None \<Rightarrow>
          (case (if truthy state
                 then fetchone (filter (\<lambda>l. Some (lr_state l) = state) (tbl_locations st))
                 else None) of
             Some row \<Rightarrow> Some row
           | None \<Rightarrow> fetchone (tbl_locations st)))"

subsection \<open>Degree days\<close>

record degree_days =
  total_hdd :: real
  total_cdd :: real
  avg_hdd :: real
  avg_cdd :: real
  days_count :: int
  is_estimated :: bool
  estimation_method :: "string option"

text \<open>Daily rates (HDD, CDD) by climate zone.\<close>

definition zone_estimates :: "(int \<times> real \<times> real) list" where
  "zone_estimates = [(1, (5 / 10, 8)), (2, (2, 5)), (3, (5, 3)), (4, (8, 1)), (5, (12, 5 / 10))]"

text \<open>The rows selected by the two \<^verbatim>\<open>WHERE\<close> clauses of \<^verbatim>\<open>get_degree_days\<close>.\<close>

definition daily_in_range :: "store \<Rightarrow> string \<Rightarrow> date \<Rightarrow> date \<Rightarrow> daily_weather_row list" where
  "daily_in_range st location_id start_date end_date =
     filter (\<lambda>r. dr_location_id r = location_id \<and> date_le start_date (dr_date r)
                 \<and> date_le (dr_date r) end_date)
       (tbl_daily_weather st)"

definition monthly_in_range :: "store \<Rightarrow> string \<Rightarrow> date \<Rightarrow> date \<Rightarrow> monthly_stats_row list" where
  "monthly_in_range st location_id start end =
     filter (\<lambda>r. mr_location_id r = location_id
                 \<and> ((mr_year r = d_year start \<and> mr_month r \<ge> d_month start)
                     \<or> mr_year r > d_year start)
                 \<and> ((mr_year r = d_year end \<and> mr_month r \<le> d_month end)
                     \<or> mr_year r < d_year end))
       (tbl_monthly_stats st)"

definition generic_estimate :: "int \<Rightarrow> degree_days" where
  "generic_estimate days_diff =
     \<lparr>total_hdd = 5 * real_of_int days_diff, total_cdd = 3 * real_of_int days_diff,
      avg_hdd = 5, avg_cdd = 3, days_count = days_diff, is_estimated = True,
      estimation_method = Some ''generic''\<rparr>"

definition get_degree_days :: "store \<Rightarrow> string \<Rightarrow> date \<Rightarrow> date \<Rightarrow> py_error + degree_days" where
  "get_degree_days st location_id start_date end_date =
     (let rows = daily_in_range st location_id start_date end_date;
          row_days_count = int (length rows)
      in if row_days_count = 0 then
           (case strptime start_date of
              Inl err \<Rightarrow> Inl err
            | Inr start \<Rightarrow>
           (case strptime end_date of
              Inl err \<Rightarrow> Inl err
            | Inr end \<Rightarrow>
           (let days_diff = toordinal end - toordinal start + 1;
                months = monthly_in_range st location_id start end;
                avg_daily_hdd =
                  sql_avg (map (\<lambda>r. mr_total_heating_degree_days r / 30) months);
                avg_daily_cdd =
                  sql_avg (map (\<lambda>r. mr_total_cooling_degree_days r / 30) months)
            in case avg_daily_hdd of
                 Some h \<Rightarrow>
                   (case avg_daily_cdd of
                      None \<Rightarrow> Inl TypeError
                    | Some c \<Rightarrow>
                        Inr \<lparr>total_hdd = h * real_of_int days_diff,
                             total_cdd = c * real_of_int days_diff,
                             avg_hdd = h, avg_cdd = c, days_count = days_diff,
                             is_estimated = True, estimation_method = None\<rparr>)
               | None \<Rightarrow>
                   (case fetchone (filter (\<lambda>l. lr_location_id l = location_id)
                                     (tbl_locations st)) of
                      Some location \<Rightarrow>
                        (case map_of zone_estimates (lr_climate_zone location) of
                           Some (est_hdd, est_cdd) \<Rightarrow>
                             Inr \<lparr>total_hdd = est_hdd * real_of_int days_diff,
                                  total_cdd = est_cdd * real_of_int days_diff,
                                  avg_hdd = est_hdd, avg_cdd = est_cdd,
                                  days_count = days_diff, is_estimated = True,
                                  estimation_method = Some ''climate_zone''\<rparr>
                         | None \<Rightarrow> Inr (generic_estimate days_diff))
                    | None \<Rightarrow> Inr (generic_estimate days_diff)))))
         else
           Inr \<lparr>total_hdd = or0 (sql_sum (map dr_heating_degree_days rows)),
                total_cdd = or0 (sql_sum (map dr_cooling_degree_days rows)),
                avg_hdd = or0 (sql_avg (map dr_heating_degree_days rows)),
                avg_cdd = or0 (sql_avg (map dr_cooling_degree_days rows)),
                days_count = row_days_count, is_estimated = False,
                estimation_method = None\<rparr>)"

text \<open>
  The four tiers as the specification describes them: each is a strategy that either
  produces an estimate or produces nothing, and the strategies are tried in order.
\<close>

definition spec_days_in_range :: "date \<Rightarrow> date \<Rightarrow> int" where
  "spec_days_in_range start end = toordinal end - toordinal start + 1"

definition spec_tier_exact :: "store \<Rightarrow> string \<Rightarrow> date \<Rightarrow> date \<Rightarrow> degree_days option" where
  "spec_tier_exact st loc start end =
     (let rows = daily_in_range st loc start end
      in if rows = [] then None
         else Some \<lparr>total_hdd = sum_list (map dr_heating_degree_days rows),
                    total_cdd = sum_list (map dr_cooling_degree_days rows),
                    avg_hdd = mean (map dr_heating_degree_days rows),
                    avg_cdd = mean (map dr_cooling_degree_days rows),
                    days_count = int (length rows), is_estimated = False,
                    estimation_method = None\<rparr>)"

definition spec_tier_monthly :: "store \<Rightarrow> string \<Rightarrow> date \<Rightarrow> date \<Rightarrow> degree_days option" where
  "spec_tier_monthly st loc start end =
     (let months = monthly_in_range st loc start end;
          d = spec_days_in_range start end;
          rate_hdd = mean (map (\<lambda>r. mr_total_heating_degree_days r / 30) months);
          rate_cdd = mean (map (\<lambda>r. mr_total_cooling_degree_days r / 30) months)
      in if months = [] then None
         else Some \<lparr>total_hdd = rate_hdd * real_of_int d, total_cdd = rate_cdd * real_of_int d,
                    avg_hdd = rate_hdd, avg_cdd = rate_cdd, days_count = d,
                    is_estimated = True, estimation_method = None\<rparr>)"

definition spec_tier_climate_zone ::
  "store \<Rightarrow> string \<Rightarrow> date \<Rightarrow> date \<Rightarrow> degree_days option" where
  "spec_tier_climate_zone st loc start end =
     (let d = spec_days_in_range start end
      in case filter (\<lambda>l. lr_location_id l = loc) (tbl_locations st) of
           [] \<Rightarrow> None
         | location # _ \<Rightarrow>
             (case map_of zone_estimates (lr_climate_zone location) of
                None \<Rightarrow> None
              | Some (h, c) \<Rightarrow>
                  Some \<lparr>total_hdd = h * real_of_int d, total_cdd = c * real_of_int d,
                        avg_hdd = h, avg_cdd = c, days_count = d, is_estimated = True,
                        estimation_method = Some ''climate_zone''\<rparr>))"

definition spec_tier_generic :: "store \<Rightarrow> string \<Rightarrow> date \<Rightarrow> date \<Rightarrow> degree_days option" where
  "spec_tier_generic st loc start end =
     (let d = spec_days_in_range start end
      in Some \<lparr>total_hdd = 5 * real_of_int d, total_cdd = 3 * real_of_int d,
               avg_hdd = 5, avg_cdd = 3, days_count = d, is_estimated = True,
               estimation_method = Some ''generic''\<rparr>)"

fun first_tier :: "('a option) list \<Rightarrow> 'a option" where
  "first_tier [] = None"
| "first_tier (None # ts) = first_tier ts"
| "first_tier (Some r # ts) = Some r"

definition spec_get_degree_days :: "store \<Rightarrow> string \<Rightarrow> date \<Rightarrow> date \<Rightarrow> degree_days option" where
  "spec_get_degree_days st loc start end =
     first_tier [spec_tier_exact st loc start end, spec_tier_monthly st loc start end,
                 spec_tier_climate_zone st loc start end, spec_tier_generic st loc start end]"

text \<open>A location is absent from the store when no table holds a row for it.\<close>

definition location_absent :: "store \<Rightarrow> string \<Rightarrow> bool" where
  "location_absent st loc =
     (loc \<notin> lr_location_id ` set (tbl_locations st)
      \<and> loc \<notin> dr_location_id ` set (tbl_daily_weather st)
      \<and> loc \<notin> mr_location_id ` set (tbl_monthly_stats st)
      \<and> loc \<notin> er_location_id ` set (tbl_event_stats st))"

subsection \<open>Seasonal adjustment factors\<close>







section \<open>Example data\<close>

text \<open>
  A cold snap in Beverly Hills: one event from 01:00 to 04:00 on 2021-01-05, read twice
  from the input file.
\<close>

definition example_event :: weather_event where
  "example_event =
     \<lparr>ev_Type = Some ''Cold'', ev_Severity = Some ''Extreme'',
      ev_StartTime =
        Some \<lparr>ts_date = \<lparr>d_year = 2021, d_month = 1, d_day = 5\<rparr>, ts_seconds = 3600\<rparr>,
      ev_EndTime =
        Some \<lparr>ts_date = \<lparr>d_year = 2021, d_month = 1, d_day = 5\<rparr>, ts_seconds = 14400\<rparr>,
      ev_Precipitation = Some (1 / 4), ev_TimeZone = Some ''US/Pacific'',
      ev_LocationLat = Some 34, ev_LocationLng = Some (- 118),
      ev_City = Some ''Beverly Hills'', ev_County = Some ''Los Angeles'',
      ev_State = Some ''CA'', ev_ZipCode = Some ''90210''\<rparr>"

definition example_input :: csv_file where
  "example_input = \<lparr>csv_columns = required_columns, csv_rows = [example_event, example_event]\<rparr>"

definition empty_store :: store where
  "empty_store =
     \<lparr>tbl_locations = [], tbl_daily_weather = [], tbl_monthly_stats = [], tbl_event_stats = []\<rparr>"

definition mk_date :: "int \<Rightarrow> int \<Rightarrow> int \<Rightarrow> date" where
  "mk_date y m d = \<lparr>d_year = y, d_month = m, d_day = d\<rparr>"

definition beverly_hills :: location_row where
  "beverly_hills =
     \<lparr>lr_location_id = ''90210_CA'', lr_zip_code = ''90210'',
      lr_city = Some ''Beverly Hills'', lr_county = Some ''Los Angeles'',
      lr_state = ''CA'', lr_latitude = Some 34, lr_longitude = Some (- 118),
      lr_climate_zone = 3, lr_event_frequency = 2 / 7\<rparr>"

definition new_york :: location_row where
  "new_york =
     \<lparr>lr_location_id = ''10001_NY'', lr_zip_code = ''10001'', lr_city = Some ''New York'',
      lr_county = Some ''New York'', lr_state = ''NY'', lr_latitude = Some (407 / 10),
      lr_longitude = Some (- 74), lr_climate_zone = 4, lr_event_frequency = 1 / 7\<rparr>"

text \<open>The store that one run over \<open>example_input\<close> leaves behind.\<close>

definition example_store :: store where
  "example_store =
     \<lparr>tbl_locations = [beverly_hills],
      tbl_daily_weather =
        [\<lparr>dr_date = \<lparr>d_year = 2021, d_month = 1, d_day = 5\<rparr>,
          dr_location_id = ''90210_CA'', dr_avg_temp = Some 10, dr_min_temp = Some 10,
          dr_max_temp = Some 10, dr_precipitation = 1 / 2, dr_heating_degree_days = 55,
          dr_cooling_degree_days = 0, dr_severe_events = 2, dr_impact_score = 81 / 16\<rparr>],
      tbl_monthly_stats =
        [\<lparr>mr_year = 2021, mr_month = 1, mr_location_id = ''90210_CA'',
          mr_avg_temp = Some 10, mr_total_heating_degree_days = 1650,
          mr_total_cooling_degree_days = 0, mr_precipitation = 1 / 2,
          mr_severe_event_days = 1, mr_avg_impact_score = 81 / 16\<rparr>],
      tbl_event_stats =
        [\<lparr>er_location_id = ''90210_CA'', er_event_type = ''Cold'', er_count = 2,
          er_avg_duration = 3, er_avg_severity = 4, er_energy_impact_score = 81 / 16\<rparr>]\<rparr>"

text \<open>A store with a second location in front, and one that lost its daily rows.\<close>

definition two_location_store :: store where
  "two_location_store = example_store\<lparr>tbl_locations := [new_york, beverly_hills]\<rparr>"

definition monthly_only_store :: store where
  "monthly_only_store = example_store\<lparr>tbl_daily_weather := []\<rparr>"

text \<open>
  The accumulators of the scenario of the specification: temperatures 80, 82 and 78 on
  the first three days of July 2021 at \<open>90210_CA\<close>, followed by a day and a month
  without any temperature sample.
\<close>

definition hot_day :: daily_acc where
  "hot_day =
     \<lparr>da_temp_values = [80], da_precipitation = 0, da_severe_events = 1,
      da_impact_scores = [17 / 4]\<rparr>"

definition no_temp_day :: daily_acc where
  "no_temp_day =
     \<lparr>da_temp_values = [], da_precipitation = 1 / 10, da_severe_events = 0,
      da_impact_scores = [1]\<rparr>"

definition scenario_days :: "(date \<times> daily_acc) list" where
  "scenario_days =
     [(mk_date 2021 7 1, hot_day),
      (mk_date 2021 7 2, hot_day\<lparr>da_temp_values := [82]\<rparr>),
      (mk_date 2021 7 3, hot_day\<lparr>da_temp_values := [78]\<rparr>),
      (mk_date 2021 7 4, no_temp_day)]"

definition scenario_daily_weather :: "(string \<times> (date \<times> daily_acc) list) list" where
  "scenario_daily_weather = [(''90210_CA'', scenario_days)]"

definition july_acc :: monthly_acc where
  "july_acc =
     \<lparr>ma_temp_values = [80, 82, 78], ma_precipitation = 1 / 10,
      ma_severe_event_days = [mk_date 2021 7 3, mk_date 2021 7 2, mk_date 2021 7 1],
      ma_impact_scores = [17 / 4, 17 / 4, 17 / 4, 1]\<rparr>"

definition august_acc :: monthly_acc where
  "august_acc =
     \<lparr>ma_temp_values = [], ma_precipitation = 1 / 10, ma_severe_event_days = [],
      ma_impact_scores = [1]\<rparr>"

definition scenario_months :: "(int \<times> monthly_acc) list" where
  "scenario_months = [(7, july_acc), (8, august_acc)]"

definition scenario_monthly_stats ::
  "(string \<times> (int \<times> (int \<times> monthly_acc) list) list) list" where
  "scenario_monthly_stats = [(''90210_CA'', [(2021, scenario_months)])]"






section \<open>Properties of the scoring functions\<close>

lemma dict_get_base_impacts: "dict_get base_impacts t 1 = spec_base t"
  by (simp add: dict_get_def base_impacts_def spec_base_def)

lemma dict_get_severity_multipliers: "dict_get severity_multipliers s (1 / 2) = spec_mult s"
  by (simp add: dict_get_def severity_multipliers_def spec_mult_def)

lemma spec_base_bounds: "1 \<le> spec_base t \<and> spec_base t \<le> 10"
  by (simp add: spec_base_def)

lemma spec_mult_bounds: "3 / 10 \<le> spec_mult s \<and> spec_mult s \<le> 1"
  by (simp add: spec_mult_def)

lemma score_unfold:
  "calculate_event_impact_score t s d =
     min 10 (spec_base t * spec_mult s * (1 / 2 + 1 / 2 * (min d 24 / 24)))"
  by (simp add: calculate_event_impact_score_def Let_def
      dict_get_base_impacts dict_get_severity_multipliers)

text \<open>
  What holds of the score on every input: it never exceeds 10, it is non-negative from
  a duration of \<open>-24\<close> hours on, it never decreases when the duration grows, and it
  is constant from 24 hours on.
\<close>

lemma impact_score_upper: "calculate_event_impact_score t s d \<le> 10"
  by (simp add: score_unfold)

lemma impact_score_lower:
  assumes "- 24 \<le> d"
  shows "0 \<le> calculate_event_impact_score t s d"
proof -
  have "0 \<le> spec_base t * spec_mult s"
    using spec_base_bounds [of t] spec_mult_bounds [of s] by simp
  moreover have "0 \<le> 1 / 2 + 1 / 2 * (min d 24 / 24)"
    using assms by simp
  ultimately have "0 \<le> spec_base t * spec_mult s * (1 / 2 + 1 / 2 * (min d 24 / 24))"
    by (rule mult_nonneg_nonneg)
  then show ?thesis
    by (simp add: score_unfold)
qed

lemma impact_score_mono:
  assumes "d1 \<le> d2"
  shows "calculate_event_impact_score t s d1 \<le> calculate_event_impact_score t s d2"
proof -
  have nn: "0 \<le> spec_base t * spec_mult s"
    using spec_base_bounds [of t] spec_mult_bounds [of s] by simp
  have "1 / 2 + 1 / 2 * (min d1 24 / 24) \<le> 1 / 2 + 1 / 2 * (min d2 24 / 24)"
    using assms by simp
  then have "spec_base t * spec_mult s * (1 / 2 + 1 / 2 * (min d1 24 / 24))
           \<le> spec_base t * spec_mult s * (1 / 2 + 1 / 2 * (min d2 24 / 24))"
    using nn by (rule mult_left_mono)
  then show ?thesis
    unfolding score_unfold by (rule min.mono [OF order_refl])
qed

lemma impact_score_const_above_24:
  "24 \<le> d \<Longrightarrow> calculate_event_impact_score t s d = calculate_event_impact_score t s 24"
  by (simp add: score_unfold)

text \<open>
  C5: \<open>extract_temperature\<close> is a function of event type and severity alone, with four
  fixed outputs for Cold, four for Heat, and no temperature for any other type.
\<close>

theorem extract_temperature_table:
  "extract_temperature sev ''Cold'' =
     (if sev = ''Extreme'' then Some 10 else if sev = ''Severe'' then Some 20
      else if sev = ''Moderate'' then Some 30 else Some 40)
   \<and> extract_temperature sev ''Heat'' =
     (if sev = ''Extreme'' then Some 105 else if sev = ''Severe'' then Some 100
      else if sev = ''Moderate'' then Some 95 else Some 90)
   \<and> (ty \<noteq> ''Cold'' \<and> ty \<noteq> ''Heat'' \<longrightarrow> extract_temperature sev ty = None)"
  by (simp add: extract_temperature_def)

theorem extract_temperature_table_witness:
  "extract_temperature ''Light'' ''Cold'' = Some 40
   \<and> extract_temperature ''Severe'' ''Heat'' = Some 100
   \<and> ''Rain'' \<noteq> ''Cold'' \<and> ''Rain'' \<noteq> ''Heat''
   \<and> extract_temperature ''Severe'' ''Rain'' = None"
  using extract_temperature_table [of "''Light''" "''Rain''"]
    extract_temperature_table [of "''Severe''" "''Rain''"]
  by simp

text \<open>
  C2: the impact score is \<open>min 10 (base \<times> mult \<times> (0.5 + 0.5 \<times> min duration 24 / 24))\<close>,
  where an unlisted event type has base 1.0 and an unknown severity has multiplier 0.5;
  a Cold event of severity Extreme lasting 3 hours scores 9.0 \<times> 1.0 \<times> 0.5625 = 5.0625.
\<close>

theorem impact_score_formula:
  "calculate_event_impact_score t s d =
     min 10 (dict_get base_impacts t 1 * dict_get severity_multipliers s 0.5
             * (0.5 + 0.5 * (min d 24 / 24)))
   \<and> dict_get base_impacts t 1 = spec_base t
   \<and> dict_get severity_multipliers s 0.5 = spec_mult s
   \<and> (t \<notin> fst ` set base_impacts \<longrightarrow> dict_get base_impacts t 1 = 1)
   \<and> (s \<notin> fst ` set severity_multipliers \<longrightarrow> dict_get severity_multipliers s 0.5 = 0.5)
   \<and> calculate_event_impact_score ''Cold'' ''Extreme'' 3 = 9.0 * 1.0 * 0.5625
   \<and> calculate_event_impact_score ''Cold'' ''Extreme'' 3 = 5.0625"
proof (intro conjI impI)
  show "calculate_event_impact_score t s d =
     min 10 (dict_get base_impacts t 1 * dict_get severity_multipliers s 0.5
             * (0.5 + 0.5 * (min d 24 / 24)))"
    by (simp add: calculate_event_impact_score_def Let_def)
  show "dict_get base_impacts t 1 = spec_base t"
    by (rule dict_get_base_impacts)
  show "dict_get severity_multipliers s 0.5 = spec_mult s"
    using dict_get_severity_multipliers [of s] by simp
  show "dict_get base_impacts t 1 = 1" if "t \<notin> fst ` set base_impacts"
    using that by (simp add: dict_get_def map_of_eq_None_iff [THEN iffD2])
  show "dict_get severity_multipliers s 0.5 = 0.5" if "s \<notin> fst ` set severity_multipliers"
    using that by (simp add: dict_get_def map_of_eq_None_iff [THEN iffD2])
  show "calculate_event_impact_score ''Cold'' ''Extreme'' 3 = 9.0 * 1.0 * 0.5625"
    by (simp add: score_unfold spec_base_def spec_mult_def)
  show "calculate_event_impact_score ''Cold'' ''Extreme'' 3 = 5.0625"
    by (simp add: score_unfold spec_base_def spec_mult_def)
qed

theorem impact_score_formula_witness:
  "''Sleet'' \<notin> fst ` set base_impacts \<and> ''Mild'' \<notin> fst ` set severity_multipliers
   \<and> dict_get base_impacts ''Sleet'' 1 = 1
   \<and> dict_get severity_multipliers ''Mild'' 0.5 = 0.5
   \<and> calculate_event_impact_score ''Sleet'' ''Mild'' 12 = 3 / 8"
proof -
  have a: "''Sleet'' \<notin> fst ` set base_impacts"
    by (simp add: base_impacts_def)
  have b: "''Mild'' \<notin> fst ` set severity_multipliers"
    by (simp add: severity_multipliers_def)
  from a b impact_score_formula [of "''Sleet''" "''Mild''" 12] show ?thesis
    by (simp add: spec_base_def spec_mult_def)
qed

text \<open>
  C3 (range part, at a negative duration): an event whose end precedes its start by two
  days has duration \<open>-48\<close> hours, and the score \<open>9 \<times> 1 \<times> (0.5 + 0.5 \<times> (-2)) = -4.5\<close>
  leaves the documented range from 0 to 10, since only the upper bound is clamped.
\<close>

theorem impact_score_negative_duration:
  "calculate_event_impact_score ''Cold'' ''Extreme'' (- 48) = - 9 / 2
   \<and> \<not> (0 \<le> calculate_event_impact_score ''Cold'' ''Extreme'' (- 48))"
  by (simp add: score_unfold spec_base_def spec_mult_def)

section \<open>Properties of the store and of the run\<close>

declare batches.simps [simp del]

lemma batches_Nil: "batches n [] = []"
  by (subst batches.simps) simp

lemma batches_Cons:
  "0 < n \<Longrightarrow> batches n (x # xs) = take n (x # xs) # batches n (drop n (x # xs))"
  by (subst batches.simps) simp

lemma batches_concat: "0 < n \<Longrightarrow> concat (batches n xs) = xs"
proof (induction n xs rule: batches.induct)
  case (1 n xs)
  then show ?case
    by (subst batches.simps) auto
qed

text \<open>Writing in batches is writing row by row.\<close>

lemma insert_in_batches_fold:
  "insert_in_batches pk rows tbl = fold (insert_or_replace pk) rows tbl"
proof -
  have "fold (executemany pk) xss t = fold (insert_or_replace pk) (concat xss) t" for xss t
    by (induction xss arbitrary: t) (simp_all add: executemany_def)
  then show ?thesis
    by (simp add: insert_in_batches_def batches_concat batch_size_def)
qed

text \<open>
  A sequence of upserts keeps the old rows whose key is not written, in their order,
  and appends what the same upserts leave in an empty table.
\<close>

lemma fold_ior:
  "fold (insert_or_replace pk) rows tbl =
     filter (\<lambda>r. pk r \<notin> pk ` set rows) tbl @ fold (insert_or_replace pk) rows []"
proof (induction rows arbitrary: tbl)
  case Nil
  then show ?case by simp
next
  case (Cons a rows)
  have "fold (insert_or_replace pk) (a # rows) tbl
        = fold (insert_or_replace pk) rows (filter (\<lambda>r. pk r \<noteq> pk a) tbl @ [a])"
    by (simp add: insert_or_replace_def)
  also have "\<dots> = filter (\<lambda>r. pk r \<notin> pk ` set rows) (filter (\<lambda>r. pk r \<noteq> pk a) tbl @ [a])
                   @ fold (insert_or_replace pk) rows []"
    by (rule Cons.IH)
  finally have l: "fold (insert_or_replace pk) (a # rows) tbl
     = filter (\<lambda>r. pk r \<notin> pk ` set rows) (filter (\<lambda>r. pk r \<noteq> pk a) tbl @ [a])
                   @ fold (insert_or_replace pk) rows []" .
  have "fold (insert_or_replace pk) (a # rows) [] = fold (insert_or_replace pk) rows [a]"
    by (simp add: insert_or_replace_def)
  also have "\<dots> = filter (\<lambda>r. pk r \<notin> pk ` set rows) [a] @ fold (insert_or_replace pk) rows []"
    by (rule Cons.IH)
  finally have r: "fold (insert_or_replace pk) (a # rows) []
     = filter (\<lambda>r. pk r \<notin> pk ` set rows) [a] @ fold (insert_or_replace pk) rows []" .
  have f: "filter (\<lambda>r. pk r \<notin> pk ` set rows) (filter (\<lambda>r. pk r \<noteq> pk a) tbl)
         = filter (\<lambda>r. pk r \<notin> pk ` set (a # rows)) tbl"
    by (auto intro: filter_cong)
  show ?case
    unfolding l r using f by simp
qed

lemma fold_ior_keys:
  "pk ` set (fold (insert_or_replace pk) rows tbl) = pk ` set tbl \<union> pk ` set rows"
  by (induction rows arbitrary: tbl) (auto simp: insert_or_replace_def)

lemma fold_ior_idem:
  "fold (insert_or_replace pk) rows (fold (insert_or_replace pk) rows tbl)
     = fold (insert_or_replace pk) rows tbl"
proof -
  let ?new = "fold (insert_or_replace pk) rows []"
  let ?keep = "filter (\<lambda>r. pk r \<notin> pk ` set rows) tbl"
  have "pk ` set ?new = pk ` set rows"
    using fold_ior_keys [of pk rows "[]"] by simp
  then have gone: "filter (\<lambda>r. pk r \<notin> pk ` set rows) ?new = []"
    by (auto simp: filter_empty_conv)
  have once: "fold (insert_or_replace pk) rows tbl = ?keep @ ?new"
    by (rule fold_ior)
  have "fold (insert_or_replace pk) rows (?keep @ ?new)
        = filter (\<lambda>r. pk r \<notin> pk ` set rows) (?keep @ ?new) @ ?new"
    by (rule fold_ior)
  also have "\<dots> = ?keep @ ?new"
    using gone by simp
  finally show ?thesis
    by (simp only: once [symmetric])
qed

lemma fold_ior_distinct:
  "distinct (map pk tbl) \<Longrightarrow> distinct (map pk (fold (insert_or_replace pk) rows tbl))"
proof (induction rows arbitrary: tbl)
  case Nil
  then show ?case by simp
next
  case (Cons a rows)
  have "distinct (map pk (insert_or_replace pk a tbl))"
    using Cons.prems by (auto simp: insert_or_replace_def distinct_map_filter)
  then show ?case
    using Cons.IH by simp
qed

lemma flush_idem:
  "save_event_statistics es (save_monthly_statistics ms (save_location_data ld
     (save_daily_weather_data dw
       (save_event_statistics es (save_monthly_statistics ms (save_location_data ld
         (save_daily_weather_data dw st)))))))
   = save_event_statistics es (save_monthly_statistics ms (save_location_data ld
         (save_daily_weather_data dw st)))"
  by (simp add: save_event_statistics_def save_monthly_statistics_def save_location_data_def
      save_daily_weather_data_def insert_in_batches_fold fold_ior_idem)

lemma flush_distinct:
  "pk_distinct st \<Longrightarrow>
   pk_distinct (save_event_statistics es (save_monthly_statistics ms (save_location_data ld
         (save_daily_weather_data dw st))))"
  by (simp add: save_event_statistics_def save_monthly_statistics_def save_location_data_def
      save_daily_weather_data_def insert_in_batches_fold fold_ior_distinct pk_distinct_def)

lemma example_duration:
  "hours_between \<lparr>ts_date = \<lparr>d_year = 2021, d_month = 1, d_day = 5\<rparr>, ts_seconds = 3600\<rparr>
     \<lparr>ts_date = \<lparr>d_year = 2021, d_month = 1, d_day = 5\<rparr>, ts_seconds = 14400\<rparr> = 3"
  by (simp add: hours_between_def)

lemma example_run:
  "preprocess_weather_data example_input 2 None None empty_store = Inr example_store"
  by (simp add: preprocess_weather_data_def required_columns_def empty_store_def
      example_store_def beverly_hills_def example_input_def batches_Nil batches_Cons
      example_event_def
      example_duration process_event_def Let_def modify_def dict_get_def
      empty_accumulators_def extract_temperature_def SEVERE_WEATHER_TYPES_def score_unfold
      spec_base_def spec_mult_def severity_map_def append_opt_def add_opt_def
      save_event_statistics_def save_monthly_statistics_def save_location_data_def
      save_daily_weather_data_def insert_in_batches_fold insert_or_replace_def daily_rows_def
      daily_row_def monthly_rows_def monthly_row_def event_rows_def event_row_def
      location_row_of_def mean_def estimate_climate_zone_def BASE_TEMP_HEATING_def
      BASE_TEMP_COOLING_def)

text \<open>
  C6: a second run over the same input, on the store the first run left behind, ends
  with exactly that store: every row is replaced by an equal row, in the same order, and
  a store without duplicate primary keys stays without duplicates. A run that stops with
  an error stops with the same error whatever the store holds, and writes nothing.
\<close>

theorem pipeline_idempotent:
  "(\<forall>st'. preprocess_weather_data inp cs sf mc st = Inr st' \<longrightarrow>
        preprocess_weather_data inp cs sf mc st' = Inr st'
        \<and> (pk_distinct st \<longrightarrow> pk_distinct st'))
   \<and> (\<forall>err. preprocess_weather_data inp cs sf mc st = Inl err \<longrightarrow>
        (\<forall>st2. preprocess_weather_data inp cs sf mc st2 = Inl err))"
  by (auto simp: preprocess_weather_data_def Let_def flush_idem flush_distinct
      split: if_splits)

theorem pipeline_idempotent_witness:
  "preprocess_weather_data example_input 2 None None empty_store = Inr example_store
   \<and> preprocess_weather_data example_input 2 None None example_store = Inr example_store
   \<and> pk_distinct empty_store \<and> pk_distinct example_store
   \<and> preprocess_weather_data (example_input\<lparr>csv_columns := []\<rparr>) 2 None None empty_store
       = Inl (MissingColumns required_columns)
   \<and> preprocess_weather_data (example_input\<lparr>csv_columns := []\<rparr>) 2 None None example_store
       = Inl (MissingColumns required_columns)"
proof -
  have d: "pk_distinct empty_store"
    by (simp add: pk_distinct_def empty_store_def)
  have e: "preprocess_weather_data (example_input\<lparr>csv_columns := []\<rparr>) 2 None None empty_store
       = Inl (MissingColumns required_columns)"
    by (simp add: preprocess_weather_data_def example_input_def required_columns_def)
  from pipeline_idempotent [of example_input 2 None None empty_store] example_run d
  have "preprocess_weather_data example_input 2 None None example_store = Inr example_store
    \<and> pk_distinct example_store"
    by simp
  moreover from pipeline_idempotent
    [of "example_input\<lparr>csv_columns := []\<rparr>" 2 None None empty_store] e
  have "preprocess_weather_data (example_input\<lparr>csv_columns := []\<rparr>) 2 None None example_store
       = Inl (MissingColumns required_columns)"
    by simp
  ultimately show ?thesis
    using example_run d e by simp
qed

section \<open>Properties of the flush\<close>

lemma daily_row_in_rows:
  "(loc, dates) \<in> set dw \<Longrightarrow> (dt, data) \<in> set dates
   \<Longrightarrow> daily_row loc dt data \<in> set (daily_rows dw)"
  by (force simp: daily_rows_def)

lemma monthly_row_in_rows:
  "(loc, years) \<in> set ms \<Longrightarrow> (y, months) \<in> set years \<Longrightarrow> (m, data) \<in> set months
   \<Longrightarrow> monthly_row loc y m data \<in> set (monthly_rows ms)"
  by (force simp: monthly_rows_def)

text \<open>
  C4: at the daily flush, the row written for a (location, date) key with temperature
  samples has \<open>hdd = max 0 (65 - avgTemp)\<close> and \<open>cdd = max 0 (avgTemp - 65)\<close> for the
  mean \<open>avgTemp\<close> of the samples, so at most one of them is nonzero and both are zero
  exactly when \<open>avgTemp = 65\<close>; without samples the three temperatures are absent and
  both degree-day values are 0.
\<close>

theorem daily_flush_degree_days:
  assumes "(loc, dates) \<in> set dw" and "(dt, data) \<in> set dates"
  shows "daily_row loc dt data \<in> set (daily_rows dw)
    \<and> (da_temp_values data \<noteq> [] \<longrightarrow>
         dr_avg_temp (daily_row loc dt data) = Some (mean (da_temp_values data))
         \<and> dr_heating_degree_days (daily_row loc dt data)
             = max 0 (65 - mean (da_temp_values data))
         \<and> dr_cooling_degree_days (daily_row loc dt data)
             = max 0 (mean (da_temp_values data) - 65)
         \<and> (dr_heating_degree_days (daily_row loc dt data) = 0
             \<or> dr_cooling_degree_days (daily_row loc dt data) = 0)
         \<and> (dr_heating_degree_days (daily_row loc dt data) = 0
             \<and> dr_cooling_degree_days (daily_row loc dt data) = 0
             \<longleftrightarrow> mean (da_temp_values data) = 65))
    \<and> (da_temp_values data = [] \<longrightarrow>
         dr_avg_temp (daily_row loc dt data) = None
         \<and> dr_min_temp (daily_row loc dt data) = None
         \<and> dr_max_temp (daily_row loc dt data) = None
         \<and> dr_heating_degree_days (daily_row loc dt data) = 0
         \<and> dr_cooling_degree_days (daily_row loc dt data) = 0)"
proof (intro conjI impI)
  show "daily_row loc dt data \<in> set (daily_rows dw)"
    using assms by (rule daily_row_in_rows)
qed (auto simp: daily_row_def Let_def BASE_TEMP_HEATING_def BASE_TEMP_COOLING_def)

theorem daily_flush_degree_days_witness:
  "(''90210_CA'', scenario_days) \<in> set scenario_daily_weather
   \<and> (mk_date 2021 7 1, hot_day) \<in> set scenario_days
   \<and> (mk_date 2021 7 4, no_temp_day) \<in> set scenario_days
   \<and> da_temp_values hot_day \<noteq> [] \<and> da_temp_values no_temp_day = []
   \<and> daily_row ''90210_CA'' (mk_date 2021 7 1) hot_day \<in> set (daily_rows scenario_daily_weather)
   \<and> dr_avg_temp (daily_row ''90210_CA'' (mk_date 2021 7 1) hot_day) = Some 80
   \<and> dr_heating_degree_days (daily_row ''90210_CA'' (mk_date 2021 7 1) hot_day) = 0
   \<and> dr_cooling_degree_days (daily_row ''90210_CA'' (mk_date 2021 7 1) hot_day) = 15
   \<and> dr_avg_temp (daily_row ''90210_CA'' (mk_date 2021 7 4) no_temp_day) = None
   \<and> dr_heating_degree_days (daily_row ''90210_CA'' (mk_date 2021 7 4) no_temp_day) = 0
   \<and> dr_cooling_degree_days (daily_row ''90210_CA'' (mk_date 2021 7 4) no_temp_day) = 0"
proof -
  have a: "(''90210_CA'', scenario_days) \<in> set scenario_daily_weather"
    by (simp add: scenario_daily_weather_def)
  have b: "(mk_date 2021 7 1, hot_day) \<in> set scenario_days"
    by (simp add: scenario_days_def)
  have c: "(mk_date 2021 7 4, no_temp_day) \<in> set scenario_days"
    by (simp add: scenario_days_def)
  have d: "da_temp_values hot_day = [80]" "da_temp_values no_temp_day = []"
    by (simp_all add: hot_day_def no_temp_day_def)
  show ?thesis
    using a b c daily_flush_degree_days [OF a b] daily_flush_degree_days [OF a c]
    by (simp add: d mean_def)
qed

text \<open>
  C8: at the monthly flush, the row written for a (location, year, month) key with
  temperature samples has total heating degree days \<open>max 0 (65 - avgTemp) \<times> 30\<close> and
  total cooling degree days \<open>max 0 (avgTemp - 65) \<times> 30\<close>, whatever the length of the
  month; without samples both totals are 0. For the samples 80, 82 and 78 of July 2021
  at \<open>90210_CA\<close> the flushed row has \<open>total_cdd = 15 \<times> 30\<close>.
\<close>

theorem monthly_flush_degree_days:
  assumes "(loc, years) \<in> set ms" and "(y, months) \<in> set years" and "(m, data) \<in> set months"
  shows "monthly_row loc y m data \<in> set (monthly_rows ms)
    \<and> (ma_temp_values data \<noteq> [] \<longrightarrow>
         mr_avg_temp (monthly_row loc y m data) = Some (mean (ma_temp_values data))
         \<and> mr_total_heating_degree_days (monthly_row loc y m data)
             = max 0 (65 - mean (ma_temp_values data)) * 30
         \<and> mr_total_cooling_degree_days (monthly_row loc y m data)
             = max 0 (mean (ma_temp_values data) - 65) * 30)
    \<and> (ma_temp_values data = [] \<longrightarrow>
         mr_total_heating_degree_days (monthly_row loc y m data) = 0
         \<and> mr_total_cooling_degree_days (monthly_row loc y m data) = 0)
    \<and> map (\<lambda>r. (pk_monthly_stats r, mr_total_cooling_degree_days r))
          (tbl_monthly_stats (save_monthly_statistics scenario_monthly_stats empty_store))
        = [((2021, 7, ''90210_CA''), 15 * 30), ((2021, 8, ''90210_CA''), 0)]"
proof (intro conjI impI)
  show "monthly_row loc y m data \<in> set (monthly_rows ms)"
    using assms by (rule monthly_row_in_rows)
  show "map (\<lambda>r. (pk_monthly_stats r, mr_total_cooling_degree_days r))
          (tbl_monthly_stats (save_monthly_statistics scenario_monthly_stats empty_store))
        = [((2021, 7, ''90210_CA''), 15 * 30), ((2021, 8, ''90210_CA''), 0)]"
    by (simp add: save_monthly_statistics_def scenario_monthly_stats_def scenario_months_def
        july_acc_def august_acc_def empty_store_def insert_in_batches_fold
        insert_or_replace_def monthly_rows_def monthly_row_def Let_def mean_def
        BASE_TEMP_HEATING_def BASE_TEMP_COOLING_def pk_monthly_stats_def)
qed (auto simp: monthly_row_def Let_def BASE_TEMP_HEATING_def BASE_TEMP_COOLING_def)

theorem monthly_flush_degree_days_witness:
  "(''90210_CA'', [(2021, scenario_months)]) \<in> set scenario_monthly_stats
   \<and> (2021, scenario_months) \<in> set [(2021, scenario_months)]
   \<and> (7, july_acc) \<in> set scenario_months \<and> (8, august_acc) \<in> set scenario_months
   \<and> ma_temp_values july_acc \<noteq> [] \<and> ma_temp_values august_acc = []
   \<and> monthly_row ''90210_CA'' 2021 7 july_acc \<in> set (monthly_rows scenario_monthly_stats)
   \<and> mr_avg_temp (monthly_row ''90210_CA'' 2021 7 july_acc) = Some 80
   \<and> mr_total_heating_degree_days (monthly_row ''90210_CA'' 2021 7 july_acc) = 0
   \<and> mr_total_cooling_degree_days (monthly_row ''90210_CA'' 2021 7 july_acc) = 450
   \<and> mr_total_heating_degree_days (monthly_row ''90210_CA'' 2021 8 august_acc) = 0
   \<and> mr_total_cooling_degree_days (monthly_row ''90210_CA'' 2021 8 august_acc) = 0"
proof -
  have a: "(''90210_CA'', [(2021, scenario_months)]) \<in> set scenario_monthly_stats"
    by (simp add: scenario_monthly_stats_def)
  have b: "(2021, scenario_months) \<in> set [(2021, scenario_months)]"
    by simp
  have c: "(7, july_acc) \<in> set scenario_months" "(8, august_acc) \<in> set scenario_months"
    by (simp_all add: scenario_months_def)
  have d: "ma_temp_values july_acc = [80, 82, 78]" "ma_temp_values august_acc = []"
    by (simp_all add: july_acc_def august_acc_def)
  show ?thesis
    using a c monthly_flush_degree_days [OF a b c(1)] monthly_flush_degree_days [OF a b c(2)]
    by (simp add: d mean_def)
qed

section \<open>Properties of the query layer\<close>

lemma fetchone_None: "fetchone xs = None \<longleftrightarrow> xs = []"
  by (cases xs) (simp_all add: fetchone_def)

lemma fetchone_Nil: "fetchone [] = None"
  by (simp add: fetchone_def)

lemma fetchone_in: "fetchone xs = Some x \<Longrightarrow> x \<in> set xs"
  by (cases xs) (simp_all add: fetchone_def)

text \<open>
  C10: \<open>find_nearest_location\<close> returns nothing only when the locations table is empty.
  When no stored location matches the zip code (and the state, when one is given), the
  result is the first location of the given state if there is one, and the first
  location of the table otherwise; the result is always a row of the table.
\<close>

theorem find_nearest_location_total:
  "(find_nearest_location st z s = None \<longleftrightarrow> tbl_locations st = [])
   \<and> (\<forall>l. find_nearest_location st z s = Some l \<longrightarrow> l \<in> set (tbl_locations st))
   \<and> (filter (\<lambda>l. lr_zip_code l = z \<and> (truthy s \<longrightarrow> Some (lr_state l) = s))
         (tbl_locations st) = []
        \<longrightarrow> find_nearest_location st z s =
             (case (if truthy s then filter (\<lambda>l. Some (lr_state l) = s) (tbl_locations st)
                    else []) of
                l # _ \<Rightarrow> Some l
              | [] \<Rightarrow> (case tbl_locations st of [] \<Rightarrow> None | l # _ \<Rightarrow> Some l)))"
proof (intro conjI allI impI)
  show "find_nearest_location st z s = None \<longleftrightarrow> tbl_locations st = []"
    by (auto simp: find_nearest_location_def fetchone_None fetchone_Nil
        split: option.splits if_splits)
  show "l \<in> set (tbl_locations st)" if "find_nearest_location st z s = Some l" for l
    using that
    by (auto simp: find_nearest_location_def split: option.splits if_splits dest: fetchone_in)
  show "find_nearest_location st z s =
             (case (if truthy s then filter (\<lambda>l. Some (lr_state l) = s) (tbl_locations st)
                    else []) of
                l # _ \<Rightarrow> Some l
              | [] \<Rightarrow> (case tbl_locations st of [] \<Rightarrow> None | l # _ \<Rightarrow> Some l))"
    if "filter (\<lambda>l. lr_zip_code l = z \<and> (truthy s \<longrightarrow> Some (lr_state l) = s))
          (tbl_locations st) = []"
    using that
    by (cases "truthy s") (auto simp: find_nearest_location_def fetchone_def split: list.splits)
qed

theorem find_nearest_location_total_witness:
  "tbl_locations two_location_store \<noteq> []
   \<and> filter (\<lambda>l. lr_zip_code l = ''94105'' \<and> (truthy (Some ''CA'') \<longrightarrow> Some (lr_state l) = Some ''CA''))
       (tbl_locations two_location_store) = []
   \<and> find_nearest_location two_location_store ''94105'' (Some ''CA'') = Some beverly_hills
   \<and> beverly_hills \<in> set (tbl_locations two_location_store)
   \<and> filter (\<lambda>l. lr_zip_code l = ''94105'' \<and> (truthy (Some ''TX'') \<longrightarrow> Some (lr_state l) = Some ''TX''))
       (tbl_locations two_location_store) = []
   \<and> find_nearest_location two_location_store ''94105'' (Some ''TX'') = Some new_york
   \<and> find_nearest_location two_location_store ''94105'' (Some ''TX'') \<noteq> None"
proof -
  have t: "tbl_locations two_location_store = [new_york, beverly_hills]"
    by (simp add: two_location_store_def)
  have f: "lr_zip_code new_york = ''10001''" "lr_zip_code beverly_hills = ''90210''"
    "lr_state new_york = ''NY''" "lr_state beverly_hills = ''CA''"
    by (simp_all add: new_york_def beverly_hills_def)
  show ?thesis
    using find_nearest_location_total [of two_location_store "''94105''" "Some ''CA''"]
      find_nearest_location_total [of two_location_store "''94105''" "Some ''TX''"]
    by (simp add: t f truthy_def)
qed

subsection \<open>Degree-day tiers\<close>

lemma or0_Some: "or0 (Some v) = v"
  by (simp add: or0_def)

lemma or0_sum: "xs \<noteq> [] \<Longrightarrow> or0 (sql_sum xs) = sum_list xs"
  by (simp add: sql_sum_def or0_Some)

lemma or0_avg: "xs \<noteq> [] \<Longrightarrow> or0 (sql_avg xs) = mean xs"
  by (simp add: sql_avg_def or0_Some)

lemma strptime_valid: "valid_date d \<Longrightarrow> strptime d = Inr d"
  by (simp add: strptime_def)

lemma get_degree_days_exact:
  "daily_in_range st loc s e \<noteq> [] \<Longrightarrow>
   get_degree_days st loc s e =
     Inr \<lparr>total_hdd = sum_list (map dr_heating_degree_days (daily_in_range st loc s e)),
          total_cdd = sum_list (map dr_cooling_degree_days (daily_in_range st loc s e)),
          avg_hdd = mean (map dr_heating_degree_days (daily_in_range st loc s e)),
          avg_cdd = mean (map dr_cooling_degree_days (daily_in_range st loc s e)),
          days_count = int (length (daily_in_range st loc s e)), is_estimated = False,
          estimation_method = None\<rparr>"
  by (simp add: get_degree_days_def Let_def or0_sum or0_avg)

lemma get_degree_days_monthly:
  "daily_in_range st loc s e = [] \<Longrightarrow> valid_date s \<Longrightarrow> valid_date e \<Longrightarrow>
   monthly_in_range st loc s e \<noteq> [] \<Longrightarrow>
   get_degree_days st loc s e =
     Inr \<lparr>total_hdd = mean (map (\<lambda>r. mr_total_heating_degree_days r / 30)
                               (monthly_in_range st loc s e))
                         * real_of_int (toordinal e - toordinal s + 1),
          total_cdd = mean (map (\<lambda>r. mr_total_cooling_degree_days r / 30)
                               (monthly_in_range st loc s e))
                         * real_of_int (toordinal e - toordinal s + 1),
          avg_hdd = mean (map (\<lambda>r. mr_total_heating_degree_days r / 30)
                             (monthly_in_range st loc s e)),
          avg_cdd = mean (map (\<lambda>r. mr_total_cooling_degree_days r / 30)
                             (monthly_in_range st loc s e)),
          days_count = toordinal e - toordinal s + 1, is_estimated = True,
          estimation_method = None\<rparr>"
  by (simp add: get_degree_days_def Let_def strptime_valid sql_avg_def)

lemma get_degree_days_fallback:
  "daily_in_range st loc s e = [] \<Longrightarrow> valid_date s \<Longrightarrow> valid_date e \<Longrightarrow>
   monthly_in_range st loc s e = [] \<Longrightarrow>
   get_degree_days st loc s e =
     (case fetchone (filter (\<lambda>l. lr_location_id l = loc) (tbl_locations st)) of
        Some location \<Rightarrow>
          (case map_of zone_estimates (lr_climate_zone location) of
             Some (est_hdd, est_cdd) \<Rightarrow>
               Inr \<lparr>total_hdd = est_hdd * real_of_int (toordinal e - toordinal s + 1),
                    total_cdd = est_cdd * real_of_int (toordinal e - toordinal s + 1),
                    avg_hdd = est_hdd, avg_cdd = est_cdd,
                    days_count = toordinal e - toordinal s + 1, is_estimated = True,
                    estimation_method = Some ''climate_zone''\<rparr>
           | None \<Rightarrow> Inr (generic_estimate (toordinal e - toordinal s + 1)))
      | None \<Rightarrow> Inr (generic_estimate (toordinal e - toordinal s + 1)))"
  by (simp add: get_degree_days_def Let_def strptime_valid sql_avg_def)

lemma absent_no_rows:
  assumes "location_absent st loc"
  shows "daily_in_range st loc s e = [] \<and> monthly_in_range st loc s e = []
    \<and> filter (\<lambda>l. lr_location_id l = loc) (tbl_locations st) = []"
  using assms
  by (auto simp: location_absent_def daily_in_range_def monthly_in_range_def filter_empty_conv)

lemma example_dates:
  "valid_date (mk_date 2021 1 10) \<and> valid_date (mk_date 2021 1 19)
   \<and> toordinal (mk_date 2021 1 19) - toordinal (mk_date 2021 1 10) + 1 = 10"
  by (simp add: valid_date_def days_in_month_def toordinal_def mk_date_def)

text \<open>
  C1: for well-formed dates \<open>get_degree_days\<close> returns the result of the first of the
  four tiers (exact daily, monthly average, climate zone, generic) that produces data,
  and nothing else. In particular, with no daily row in the range and at least one
  monthly row in the overlapping months, the result is the monthly estimate: the mean of
  the \<open>total / 30\<close> daily rates, scaled by the number of days of the range, flagged as
  estimated and carrying neither the climate-zone nor the generic label.
\<close>

theorem degree_days_tier_order:
  assumes "valid_date s" and "valid_date e"
  shows "(\<exists>r. get_degree_days st loc s e = Inr r \<and> spec_get_degree_days st loc s e = Some r)
    \<and> (daily_in_range st loc s e = [] \<and> monthly_in_range st loc s e \<noteq> [] \<longrightarrow>
         get_degree_days st loc s e =
           Inr \<lparr>total_hdd = mean (map (\<lambda>r. mr_total_heating_degree_days r / 30)
                                     (monthly_in_range st loc s e))
                               * real_of_int (toordinal e - toordinal s + 1),
                total_cdd = mean (map (\<lambda>r. mr_total_cooling_degree_days r / 30)
                                     (monthly_in_range st loc s e))
                               * real_of_int (toordinal e - toordinal s + 1),
                avg_hdd = mean (map (\<lambda>r. mr_total_heating_degree_days r / 30)
                                   (monthly_in_range st loc s e)),
                avg_cdd = mean (map (\<lambda>r. mr_total_cooling_degree_days r / 30)
                                   (monthly_in_range st loc s e)),
                days_count = toordinal e - toordinal s + 1, is_estimated = True,
                estimation_method = None\<rparr>)"
proof (intro conjI impI)
  show "\<exists>r. get_degree_days st loc s e = Inr r \<and> spec_get_degree_days st loc s e = Some r"
  proof (cases "daily_in_range st loc s e = []")
    case False
    then show ?thesis
      by (simp add: get_degree_days_exact spec_get_degree_days_def spec_tier_exact_def Let_def)
  next
    case no_daily: True
    show ?thesis
    proof (cases "monthly_in_range st loc s e = []")
      case False
      with no_daily assms show ?thesis
        by (simp add: get_degree_days_monthly spec_get_degree_days_def spec_tier_exact_def
            spec_tier_monthly_def spec_days_in_range_def Let_def)
    next
      case True
      with no_daily assms show ?thesis
        by (auto simp: get_degree_days_fallback spec_get_degree_days_def spec_tier_exact_def
            spec_tier_monthly_def spec_tier_climate_zone_def spec_tier_generic_def
            spec_days_in_range_def generic_estimate_def fetchone_def Let_def
            split: list.splits option.splits)
    qed
  qed
next
  assume "daily_in_range st loc s e = [] \<and> monthly_in_range st loc s e \<noteq> []"
  with assms show "get_degree_days st loc s e =
           Inr \<lparr>total_hdd = mean (map (\<lambda>r. mr_total_heating_degree_days r / 30)
                                     (monthly_in_range st loc s e))
                               * real_of_int (toordinal e - toordinal s + 1),
                total_cdd = mean (map (\<lambda>r. mr_total_cooling_degree_days r / 30)
                                     (monthly_in_range st loc s e))
                               * real_of_int (toordinal e - toordinal s + 1),
                avg_hdd = mean (map (\<lambda>r. mr_total_heating_degree_days r / 30)
                                   (monthly_in_range st loc s e)),
                avg_cdd = mean (map (\<lambda>r. mr_total_cooling_degree_days r / 30)
                                   (monthly_in_range st loc s e)),
                days_count = toordinal e - toordinal s + 1, is_estimated = True,
                estimation_method = None\<rparr>"
    by (simp add: get_degree_days_monthly)
qed

theorem degree_days_tier_order_witness:
  "valid_date (mk_date 2021 1 10) \<and> valid_date (mk_date 2021 1 19)
   \<and> daily_in_range monthly_only_store ''90210_CA'' (mk_date 2021 1 10) (mk_date 2021 1 19) = []
   \<and> monthly_in_range monthly_only_store ''90210_CA'' (mk_date 2021 1 10) (mk_date 2021 1 19)
       \<noteq> []
   \<and> beverly_hills \<in> set (tbl_locations monthly_only_store)
   \<and> get_degree_days monthly_only_store ''90210_CA'' (mk_date 2021 1 10) (mk_date 2021 1 19)
       = Inr \<lparr>total_hdd = 550, total_cdd = 0, avg_hdd = 55, avg_cdd = 0, days_count = 10,
              is_estimated = True, estimation_method = None\<rparr>
   \<and> spec_get_degree_days monthly_only_store ''90210_CA'' (mk_date 2021 1 10)
         (mk_date 2021 1 19)
       = Some \<lparr>total_hdd = 550, total_cdd = 0, avg_hdd = 55, avg_cdd = 0, days_count = 10,
               is_estimated = True, estimation_method = None\<rparr>"
proof -
  have v: "valid_date (mk_date 2021 1 10)" "valid_date (mk_date 2021 1 19)"
    using example_dates by simp_all
  have d: "daily_in_range monthly_only_store ''90210_CA'' (mk_date 2021 1 10)
             (mk_date 2021 1 19) = []"
    by (simp add: daily_in_range_def monthly_only_store_def)
  have m: "monthly_in_range monthly_only_store ''90210_CA'' (mk_date 2021 1 10)
             (mk_date 2021 1 19) = tbl_monthly_stats example_store"
    by (simp add: monthly_in_range_def monthly_only_store_def example_store_def mk_date_def)
  have l: "beverly_hills \<in> set (tbl_locations monthly_only_store)"
    by (simp add: monthly_only_store_def example_store_def)
  show ?thesis
    using v l degree_days_tier_order [OF v, of monthly_only_store "''90210_CA''"] example_dates
    by (auto simp: d m example_store_def mean_def)
qed

text \<open>
  C9, as amended: for a location that no table of the store knows and well-formed dates
  spanning \<open>d\<close> days, \<open>get_degree_days\<close> does not raise and returns the generic estimate
  \<open>5 \<times> d\<close>, \<open>3 \<times> d\<close>, 5, 3, \<open>d\<close>, flagged as estimated with method "generic". For every
  store and location a degree-day query with well-formed dates returns a result, and
  the result is flagged as estimated exactly when no daily row lies in the range.
\<close>

theorem degree_days_never_raises:
  assumes "valid_date s" and "valid_date e"
  shows "(location_absent st loc \<longrightarrow>
           get_degree_days st loc s e =
             Inr \<lparr>total_hdd = 5 * real_of_int (toordinal e - toordinal s + 1),
                  total_cdd = 3 * real_of_int (toordinal e - toordinal s + 1),
                  avg_hdd = 5, avg_cdd = 3,
                  days_count = toordinal e - toordinal s + 1,
                  is_estimated = True, estimation_method = Some ''generic''\<rparr>)
    \<and> (\<exists>r. get_degree_days st loc s e = Inr r
            \<and> (is_estimated r \<longleftrightarrow> daily_in_range st loc s e = []))"
proof (intro conjI impI)
  assume absent: "location_absent st loc"
  show "get_degree_days st loc s e =
             Inr \<lparr>total_hdd = 5 * real_of_int (toordinal e - toordinal s + 1),
                  total_cdd = 3 * real_of_int (toordinal e - toordinal s + 1),
                  avg_hdd = 5, avg_cdd = 3,
                  days_count = toordinal e - toordinal s + 1,
                  is_estimated = True, estimation_method = Some ''generic''\<rparr>"
    using assms absent_no_rows [OF absent, of s e]
    by (simp add: get_degree_days_fallback fetchone_def generic_estimate_def)
next
  show "\<exists>r. get_degree_days st loc s e = Inr r
            \<and> (is_estimated r \<longleftrightarrow> daily_in_range st loc s e = [])"
  proof (cases "daily_in_range st loc s e = []")
    case False
    then show ?thesis
      by (simp add: get_degree_days_exact)
  next
    case no_daily: True
    show ?thesis
    proof (cases "monthly_in_range st loc s e = []")
      case False
      with no_daily assms show ?thesis
        by (simp add: get_degree_days_monthly)
    next
      case True
      with no_daily assms show ?thesis
        by (auto simp: get_degree_days_fallback generic_estimate_def
            split: option.splits)
    qed
  qed
qed

theorem degree_days_never_raises_witness:
  "valid_date (mk_date 2021 1 10) \<and> valid_date (mk_date 2021 1 19)
   \<and> location_absent example_store ''00000_ZZ''
   \<and> get_degree_days example_store ''00000_ZZ'' (mk_date 2021 1 10) (mk_date 2021 1 19)
       = Inr \<lparr>total_hdd = 50, total_cdd = 30, avg_hdd = 5, avg_cdd = 3, days_count = 10,
              is_estimated = True, estimation_method = Some ''generic''\<rparr>"
proof -
  have v: "valid_date (mk_date 2021 1 10)" "valid_date (mk_date 2021 1 19)"
    using example_dates by simp_all
  have a: "location_absent example_store ''00000_ZZ''"
    by (simp add: location_absent_def example_store_def beverly_hills_def)
  show ?thesis
    using v a degree_days_never_raises [OF v, of example_store "''00000_ZZ''"] example_dates
    by simp
qed

text \<open>
  C9, as first stated, fails beyond \<open>get_degree_days\<close>: it promises an estimate with an
  accuracy flag from every query of the query layer that finds no data. On a store
  without any location, \<open>find_nearest_location\<close> returns nothing at all.
\<close>

theorem query_layer_returns_nothing:
  "location_absent empty_store ''90210_CA''
   \<and> tbl_locations empty_store = []
   \<and> find_nearest_location empty_store ''90210'' (Some ''CA'') = None
   \<and> find_nearest_location empty_store ''90210'' None = None"
  by (simp add: location_absent_def empty_store_def find_nearest_location_def fetchone_def
      truthy_def)

section \<open>Properties of binary64 rounding\<close>

lemma pow2_powr: "pow2 n = 2 powr real_of_int n"
  by (simp add: pow2_def powr_real_of_int inverse_eq_divide)

lemma pow2_pos: "0 < pow2 n"
  by (simp add: pow2_powr)

lemma pow2_add: "pow2 (m + n) = pow2 m * pow2 n"
  by (simp add: pow2_powr powr_add)

lemma exponent_eq:
  assumes "pow2 e \<le> \<bar>x\<bar>" and "\<bar>x\<bar> < pow2 (e + 1)"
  shows "exponent x = e"
proof -
  have pos: "0 < \<bar>x\<bar>"
    using assms(1) pow2_pos [of e] by linarith
  have "real_of_int e \<le> log 2 \<bar>x\<bar>"
    using assms(1) pos powr_le_iff [of 2 "\<bar>x\<bar>" "real_of_int e"] by (simp add: pow2_powr)
  moreover have "log 2 \<bar>x\<bar> < real_of_int (e + 1)"
    using assms(2) pos less_powr_iff [of 2 "\<bar>x\<bar>" "real_of_int (e + 1)"]
    by (simp add: pow2_powr)
  ultimately show ?thesis
    unfolding exponent_def by (simp add: floor_eq_iff)
qed

lemma exponent_bounds:
  assumes "x \<noteq> 0"
  shows "pow2 (exponent x) \<le> \<bar>x\<bar> \<and> \<bar>x\<bar> < pow2 (exponent x + 1)"
proof -
  have pos: "0 < \<bar>x\<bar>" using assms by simp
  have "real_of_int (exponent x) \<le> log 2 \<bar>x\<bar>"
    unfolding exponent_def by simp
  then have a: "pow2 (exponent x) \<le> \<bar>x\<bar>"
    using pos powr_le_iff [of 2 "\<bar>x\<bar>" "real_of_int (exponent x)"] by (simp add: pow2_powr)
  have "log 2 \<bar>x\<bar> < real_of_int (exponent x + 1)"
    unfolding exponent_def by linarith
  then have "\<bar>x\<bar> < pow2 (exponent x + 1)"
    using pos less_powr_iff [of 2 "\<bar>x\<bar>" "real_of_int (exponent x + 1)"]
    unfolding pow2_powr by linarith
  with a show ?thesis by simp
qed

text \<open>Rounding a value whose binade is known.\<close>

lemma fl_eval:
  assumes "pow2 e \<le> \<bar>x\<bar>" and "\<bar>x\<bar> < pow2 (e + 1)"
  shows "fl x = of_int (round_even (x / pow2 (e - 52))) * pow2 (e - 52)"
proof -
  have "x \<noteq> 0"
    using assms(1) pow2_pos [of e] by auto
  then show ?thesis
    by (simp add: fl_def exponent_eq [OF assms])
qed


lemma fl_one: "fl 1 = 1"
  by (subst fl_eval [where e = 0]) (simp_all add: pow2_def round_even_def)




lemma round_even_err: "\<bar>real_of_int (round_even y) - y\<bar> \<le> 1 / 2"
  unfolding round_even_def Let_def by (auto; linarith)

lemma pow2_52: "pow2 (e - 52) = pow2 e / 2 ^ 52"
proof -
  have "pow2 (e - 52) * pow2 52 = pow2 e"
    using pow2_add [of "e - 52" 52] by simp
  moreover have "pow2 52 = 2 ^ 52"
    by (simp add: pow2_def)
  ultimately show ?thesis
    by (simp add: field_simps)
qed

lemma fl_err: "\<bar>fl x - x\<bar> \<le> \<bar>x\<bar> * unit_roundoff"
proof (cases "x = 0")
  case True
  then show ?thesis by (simp add: fl_def)
next
  case False
  define p where "p = pow2 (exponent x - 52)"
  have p: "0 < p"
    unfolding p_def by (rule pow2_pos)
  have "fl x - x = (real_of_int (round_even (x / p)) - x / p) * p"
    using False p by (simp add: fl_def p_def field_simps)
  then have "\<bar>fl x - x\<bar> = \<bar>real_of_int (round_even (x / p)) - x / p\<bar> * p"
    using p by (simp add: abs_mult)
  also have "\<dots> \<le> 1 / 2 * p"
    using round_even_err [of "x / p"] p by (intro mult_right_mono) simp_all
  also have "\<dots> = pow2 (exponent x) * unit_roundoff"
    by (simp add: p_def pow2_52 unit_roundoff_def)
  also have "\<dots> \<le> \<bar>x\<bar> * unit_roundoff"
    using exponent_bounds [OF False] by (simp add: mult_right_mono unit_roundoff_def)
  finally show ?thesis .
qed


lemma fl_lower:
  assumes "0 \<le> x"
  shows "x * (1 - unit_roundoff) \<le> fl x"
proof -
  have "x - fl x \<le> x * unit_roundoff"
    using fl_err [of x] assms by simp
  then show ?thesis
    by (simp add: algebra_simps)
qed

lemma unit_roundoff_small: "0 < unit_roundoff \<and> unit_roundoff \<le> 1 / 1000"
  by (simp add: unit_roundoff_def)

lemma fl_pos:
  assumes "0 < x"
  shows "0 < fl x"
proof -
  have "0 < x * (1 - unit_roundoff)"
    using assms unit_roundoff_small by simp
  with fl_lower [of x] assms show ?thesis by simp
qed




subsection \<open>The twelve equal months of the rounding example\<close>






subsection \<open>Seasonal adjustment factors\<close>




















subsection \<open>The rounding example, evaluated\<close>










end
